theory Spec2Isabelle
  imports Main "HOL-Library.Sublist"
begin

section \<open>Kernel selection (kernelSelector.ts): data model\<close>

text \<open>
  The embedding follows \<^verbatim>\<open>src/client/datascience/jupyter/kernels/kernelSelector.ts\<close>.
  An optional TypeScript field (\<^verbatim>\<open>f?: T\<close>, or a value the code tests before use) is an
  \<open>option\<close>; JavaScript truthiness of a string is non-emptiness. A value the code reads
  through an \<^verbatim>\<open>any\<close> cast is a \<open>js_any\<close>. A JavaScript number that may be \<^verbatim>\<open>NaN\<close> is an
  \<open>int option\<close>, \<open>None\<close> standing for \<^verbatim>\<open>NaN\<close>.
\<close>

datatype js_any = JUndefined | JNumber int | JString string

datatype js_error = JsError string

datatype connection_type = Raw | Jupyter | NoConnection

record PythonVersion =
  major :: int

record PythonInterpreter =
  interpreter_path :: string
  version :: "PythonVersion option"
  displayName :: "string option"

record IJupyterKernelSpec =
  spec_name :: string
  spec_path :: "string option"
  spec_display_name :: "string option"

text \<open>\<^verbatim>\<open>Kernel.IModel\<close> as the code reads it: \<^verbatim>\<open>id\<close>, and through the \<^verbatim>\<open>any\<close> cast
  \<^verbatim>\<open>last_activity\<close> and \<^verbatim>\<open>connections\<close>.\<close>

record Kernel_IModel =
  kernel_id :: string
  kernel_name :: string
  last_activity :: js_any
  connections :: js_any

record Session_IModel =
  session_id :: string
  session_kernel :: Kernel_IModel

text \<open>A \<^verbatim>\<open>Date\<close> is its time value in milliseconds, \<open>None\<close> for an invalid date.\<close>

type_synonym js_date = "int option"

text \<open>\<^verbatim>\<open>LiveKernelModel\<close>: the fields of the kernel (the object spread
  \<^verbatim>\<open>...session.kernel\<close> copies all four), then the three the code adds.\<close>

record LiveKernelModel =
  lk_id :: "string option"
  lk_name :: string
  lk_last_activity :: js_any
  lk_connections :: js_any
  lastActivityTime :: js_date
  numberOfConnections :: "int option"
  lk_session :: Session_IModel

record KernelSpecInterpreter =
  kernelSpec :: "IJupyterKernelSpec option"
  interpreter :: "PythonInterpreter option"
  kernelModel :: "LiveKernelModel option"

text \<open>\<^verbatim>\<open>INotebookMetadataLive\<close>: the notebook's \<^verbatim>\<open>kernelspec\<close> and the live kernel id.\<close>

record NotebookKernelspec =
  nb_name :: string
  nb_display_name :: string

record INotebookMetadataLive =
  nb_kernelspec :: "NotebookKernelspec option"
  nb_id :: "string option"

definition empty_selection :: KernelSpecInterpreter where
  "empty_selection = \<lparr>kernelSpec = None, interpreter = None, kernelModel = None\<rparr>"

section \<open>JavaScript primitives the code calls\<close>

definition truthy_string :: "string option \<Rightarrow> bool" where
  "truthy_string s = (case s of None \<Rightarrow> False | Some t \<Rightarrow> t \<noteq> [])"

definition isDigit :: "char \<Rightarrow> bool" where
  "isDigit c = (48 \<le> (of_char c :: nat) \<and> (of_char c :: nat) \<le> 57)"

definition digit_val :: "char \<Rightarrow> int" where
  "digit_val c = int (of_char c) - 48"

text \<open>
  The white space \<^verbatim>\<open>parseInt\<close> skips, within ASCII: TAB, LF, VT, FF, CR, space.
  JavaScript skips more (U+00A0, U+FEFF, the Unicode space separators, U+2028, U+2029);
  those lie outside ASCII, so this predicate is the engine's on ASCII strings only, and
  what is proved of \<^verbatim>\<open>parseInt\<close> on a string is stated for ASCII strings (\<open>ascii_string\<close>).
\<close>

definition isWhiteSpace :: "char \<Rightarrow> bool" where
  "isWhiteSpace c = ((of_char c :: nat) \<in> {9, 10, 11, 12, 13, 32})"

fun digits_value :: "int \<Rightarrow> string \<Rightarrow> int" where
  "digits_value acc [] = acc"
| "digits_value acc (c # cs) = digits_value (acc * 10 + digit_val c) cs"

text \<open>
  \<^verbatim>\<open>parseInt(str, 10)\<close>: skip leading white space, read an optional sign, take the longest
  prefix of decimal digits; \<^verbatim>\<open>NaN\<close> when that prefix is empty. The value here is the exact
  integer. JavaScript returns the double nearest to it, which is the integer itself when
  it is a safe integer (\<open>safe_integer\<close>, below 2^53 in absolute value) and may differ
  beyond; what is proved of a parsed value is stated for safe integers only.
\<close>

definition parseInt10 :: "string \<Rightarrow> int option" where
  "parseInt10 str =
     (let s = dropWhile isWhiteSpace str;
          sign = (case s of c # _ \<Rightarrow> if c = CHR ''-'' then - 1 else 1 | [] \<Rightarrow> (1 :: int));
          s' = (case s of c # cs \<Rightarrow> if c = CHR ''-'' \<or> c = CHR ''+'' then cs else s | [] \<Rightarrow> s);
          z = takeWhile isDigit s'
      in if z = [] then None else Some (sign * digits_value 0 z))"

definition ascii_string :: "string \<Rightarrow> bool" where
  "ascii_string s = list_all (\<lambda>c. (of_char c :: nat) < 128) s"

text \<open>\<^verbatim>\<open>Number.isSafeInteger\<close>, on an integer.\<close>

definition safe_integer :: "int \<Rightarrow> bool" where
  "safe_integer n = (\<bar>n\<bar> < 2 ^ 53)"

text \<open>
  \<^verbatim>\<open>/\D+(\d+)/.exec(name)\<close>, returning capture group 1. \<open>regex_at\<close> is a match attempt
  at the start of its argument: one or more non-digits, then one or more digits, both
  greedy (giving back a non-digit would leave a non-digit where a digit is needed, so
  backtracking never finds another match). \<open>regex_exec\<close> tries every start position
  from the left, as \<^verbatim>\<open>exec\<close> does.
\<close>

definition regex_at :: "string \<Rightarrow> string option" where
  "regex_at s =
     (let nondigits = takeWhile (\<lambda>c. \<not> isDigit c) s;
          rest = dropWhile (\<lambda>c. \<not> isDigit c) s;
          digits = takeWhile isDigit rest
      in if nondigits = [] \<or> digits = [] then None else Some digits)"

fun regex_exec :: "string \<Rightarrow> string option" where
  "regex_exec [] = regex_at []"
| "regex_exec (c # cs) =
     (case regex_at (c # cs) of Some d \<Rightarrow> Some d | None \<Rightarrow> regex_exec cs)"

section \<open>getKernelForRemoteConnection: the scoring loop\<close>

text \<open>The three tests of the loop body, each taking the running \<^verbatim>\<open>score\<close> and returning it
  updated, in the order of the source.\<close>

definition score_path :: "PythonInterpreter option \<Rightarrow> IJupyterKernelSpec \<Rightarrow> int \<Rightarrow> int" where
  "score_path interp spec score =
     (case (spec_path spec, interp) of
        (Some p, Some i) \<Rightarrow>
          if p \<noteq> [] \<and> length p > 0 \<and> p = interpreter_path i then score + 8 else score
      | _ \<Rightarrow> score)"

definition score_version :: "PythonInterpreter option \<Rightarrow> IJupyterKernelSpec \<Rightarrow> int \<Rightarrow> int" where
  "score_version interp spec score =
     (case interp of
        None \<Rightarrow> score
      | Some i \<Rightarrow>
         (case version i of
            None \<Rightarrow> score
          | Some v \<Rightarrow>
              if spec_name spec = [] then score
              else (case regex_exec (spec_name spec) of
                      None \<Rightarrow> score
                    | Some m1 \<Rightarrow>
                       (case parseInt10 (take 1 m1) of
                          None \<Rightarrow> score
                        | Some nameVersion \<Rightarrow>
                            if nameVersion \<noteq> 0 \<and> nameVersion = major v then score + 4
                            else score))))"

definition score_display_name ::
  "INotebookMetadataLive option \<Rightarrow> IJupyterKernelSpec \<Rightarrow> int \<Rightarrow> int" where
  "score_display_name notebookMetadata spec score =
     (case spec_display_name spec of
        None \<Rightarrow> score
      | Some d \<Rightarrow>
          if d \<noteq> [] \<and>
             Some d = map_option nb_display_name (Option.bind notebookMetadata nb_kernelspec)
          then score + 16 else score)"

text \<open>The score of one element of \<^verbatim>\<open>specs\<close>; an element that is \<^verbatim>\<open>undefined\<close> keeps 0.\<close>

definition spec_score ::
  "PythonInterpreter option \<Rightarrow> INotebookMetadataLive option \<Rightarrow> IJupyterKernelSpec option \<Rightarrow> int" where
  "spec_score interp notebookMetadata spec =
     (case spec of
        None \<Rightarrow> 0
      | Some sp \<Rightarrow>
          score_display_name notebookMetadata sp (score_version interp sp (score_path interp sp 0)))"

text \<open>The \<^verbatim>\<open>for\<close> loop, on the elements left to visit, with \<^verbatim>\<open>(bestMatch, bestScore)\<close> as
  its state.\<close>

fun score_loop ::
  "PythonInterpreter option \<Rightarrow> INotebookMetadataLive option \<Rightarrow> IJupyterKernelSpec option list \<Rightarrow>
   IJupyterKernelSpec option \<times> int \<Rightarrow> IJupyterKernelSpec option \<times> int" where
  "score_loop interp notebookMetadata [] (bestMatch, bestScore) = (bestMatch, bestScore)"
| "score_loop interp notebookMetadata (spec # rest) (bestMatch, bestScore) =
     (let score = spec_score interp notebookMetadata spec
      in if score > bestScore then score_loop interp notebookMetadata rest (spec, score)
         else score_loop interp notebookMetadata rest (bestMatch, bestScore))"

text \<open>The matching step: \<^verbatim>\<open>bestMatch\<close> undefined, \<^verbatim>\<open>bestScore = -1\<close>, then the loop, which
  does not run when \<^verbatim>\<open>specs\<close> is undefined.\<close>

definition match_specs ::
  "PythonInterpreter option \<Rightarrow> INotebookMetadataLive option \<Rightarrow>
   IJupyterKernelSpec option list option \<Rightarrow> IJupyterKernelSpec option \<times> int" where
  "match_specs interp notebookMetadata specs =
     (case specs of
        None \<Rightarrow> (None, - 1)
      | Some xs \<Rightarrow> score_loop interp notebookMetadata xs (None, - 1))"

section \<open>getKernelForRemoteConnection: the live session and the result\<close>

definition js_truthy :: "js_any \<Rightarrow> bool" where
  "js_truthy v = (case v of JUndefined \<Rightarrow> False | JNumber n \<Rightarrow> n \<noteq> 0 | JString s \<Rightarrow> s \<noteq> [])"

text \<open>The decimal digits of a natural number, most significant first.\<close>

function string_of_nat :: "nat \<Rightarrow> string" where
  "string_of_nat n =
     (if n < 10 then [char_of (48 + n)]
      else string_of_nat (n div 10) @ [char_of (48 + n mod 10)])"
  by pat_completeness auto
termination
  by (relation "measure id") auto

declare string_of_nat.simps [simp del]

text \<open>
  \<^verbatim>\<open>value.toString()\<close>. \<open>JNumber n\<close> is the number of integer value \<open>n\<close> (a connection
  count), printed in plain decimal: that is what JavaScript prints for a safe integer
  (\<open>safe_integer\<close>). From 10^21 on JavaScript prints exponent notation, and between 2^53
  and 10^21 not every integer is a number; what is proved of a number is stated for safe
  integers only. The code calls \<^verbatim>\<open>toString\<close> on truthy values only, so the \<open>JUndefined\<close>
  case (a \<^verbatim>\<open>TypeError\<close>) is never reached.
\<close>

definition js_toString :: "js_any \<Rightarrow> string" where
  "js_toString v =
     (case v of
        JUndefined \<Rightarrow> []
      | JNumber n \<Rightarrow> if n < 0 then CHR ''-'' # string_of_nat (nat (- n)) else string_of_nat (nat n)
      | JString s \<Rightarrow> s)"

text \<open>
  \<^verbatim>\<open>sessions?.find((s) => s.kernel.id === notebookMetadata?.id)\<close> under the guard
  \<^verbatim>\<open>notebookMetadata && notebookMetadata.id\<close>: the first running session whose kernel has
  the notebook's live kernel id, when that id is a non-empty string.
\<close>

definition find_live_session ::
  "Session_IModel list option \<Rightarrow> INotebookMetadataLive option \<Rightarrow> Session_IModel option" where
  "find_live_session sessions notebookMetadata =
     (case notebookMetadata of
        None \<Rightarrow> None
      | Some m \<Rightarrow>
         (case nb_id m of
            None \<Rightarrow> None
          | Some i \<Rightarrow>
              if i = [] then None
              else (case sessions of
                      None \<Rightarrow> None
                    | Some ss \<Rightarrow> List.find (\<lambda>s. kernel_id (session_kernel s) = i) ss)))"

text \<open>
  The \<^verbatim>\<open>kernelModel\<close> built for a live session. \<open>Date_parse\<close> is \<^verbatim>\<open>Date.parse\<close> (its
  grammar is left to the engine) and \<open>now\<close> is the clock read by \<^verbatim>\<open>new Date()\<close>.
\<close>

definition live_kernel_model ::
  "(string \<Rightarrow> int option) \<Rightarrow> js_date \<Rightarrow> Session_IModel \<Rightarrow> LiveKernelModel" where
  "live_kernel_model Date_parse now session =
     (let liveKernel = session_kernel session;
          lastActivityTime' =
            (if js_truthy (last_activity liveKernel)
             then Date_parse (js_toString (last_activity liveKernel)) else now);
          numberOfConnections' =
            (if js_truthy (connections liveKernel)
             then parseInt10 (js_toString (connections liveKernel)) else Some 0)
      in \<lparr>lk_id = Some (kernel_id liveKernel), lk_name = kernel_name liveKernel,
          lk_last_activity = last_activity liveKernel, lk_connections = connections liveKernel,
          lastActivityTime = lastActivityTime', numberOfConnections = numberOfConnections',
          lk_session = session\<rparr>)"

text \<open>
  \<open>getKernelForRemoteConnection\<close>, given what \<^verbatim>\<open>Promise.all\<close> resolved to: the active
  interpreter, the kernel specs and the running sessions (undefined without a session
  manager).
\<close>

definition getKernelForRemoteConnection ::
  "(string \<Rightarrow> int option) \<Rightarrow> js_date \<Rightarrow> PythonInterpreter option \<Rightarrow>
   IJupyterKernelSpec option list option \<Rightarrow> Session_IModel list option \<Rightarrow>
   INotebookMetadataLive option \<Rightarrow> KernelSpecInterpreter" where
  "getKernelForRemoteConnection Date_parse now interp specs sessions notebookMetadata =
     (case find_live_session sessions notebookMetadata of
        Some session \<Rightarrow>
          \<lparr>kernelSpec = None, interpreter = interp,
           kernelModel = Some (live_kernel_model Date_parse now session)\<rparr>
      | None \<Rightarrow>
          \<lparr>kernelSpec = fst (match_specs interp notebookMetadata specs), interpreter = interp,
           kernelModel = None\<rparr>)"

section \<open>The ignore list and the suggestion filter\<close>

record Kernel_IKernelConnection =
  connection_id :: string
  clientId :: string

text \<open>\<^verbatim>\<open>kernelIdsToHide\<close> is a \<^verbatim>\<open>Set<string>\<close>; the two methods return its new value.\<close>

definition addKernelToIgnoreList :: "Kernel_IKernelConnection \<Rightarrow> string set \<Rightarrow> string set" where
  "addKernelToIgnoreList kern kernelIdsToHide =
     insert (clientId kern) (insert (connection_id kern) kernelIdsToHide)"

definition removeKernelFromIgnoreList :: "Kernel_IKernelConnection \<Rightarrow> string set \<Rightarrow> string set" where
  "removeKernelFromIgnoreList kern kernelIdsToHide =
     (kernelIdsToHide - {connection_id kern}) - {clientId kern}"

record IKernelSpecQuickPickItem =
  label :: string
  selection :: KernelSpecInterpreter

text \<open>\<^verbatim>\<open>item.selection.kernelModel?.id || ''\<close>\<close>

definition item_kernel_id :: "IKernelSpecQuickPickItem \<Rightarrow> string" where
  "item_kernel_id item =
     (case kernelModel (selection item) of
        None \<Rightarrow> []
      | Some m \<Rightarrow> (case lk_id m of None \<Rightarrow> [] | Some i \<Rightarrow> i))"

definition filter_suggestions ::
  "string set \<Rightarrow> IKernelSpecQuickPickItem list \<Rightarrow> IKernelSpecQuickPickItem list" where
  "filter_suggestions kernelIdsToHide suggestions =
     filter (\<lambda>item. \<not> (item_kernel_id item \<in> kernelIdsToHide)) suggestions"

section \<open>The collaborators and the selection flows\<close>

datatype telemetry =
    UseInterpreterAsKernel | KernelRegisterFailed | SwitchToInterpreterAsKernel
  | SwitchToExistingKernel | SelectRemoteJupyterKernel | SelectLocalJupyterKernel

datatype info_message =
    FallbackToUseActiveInterpeterAsKernel string
  | FallBackToRegisterAndUseActiveInterpeterAsKernel string

text \<open>The calls a flow makes on its collaborators, in order (trace logging left out). The
  quick pick is recorded with the items and the placeholder it shows.\<close>

datatype call =
    AreDependenciesInstalled
  | FindMatchingKernelSpec
  | UpdateKernelEnvironment
  | ShowInformationMessage info_message
  | SendTelemetryEvent telemetry
  | RegisterKernel
  | GetKernelSelectionsForLocalSession
  | GetKernelSelectionsForRemoteSession
  | FindMatchingInterpreter
  | ShowQuickPick "IKernelSpecQuickPickItem list" string

text \<open>
  The collaborators are injected services whose code is outside this file; each is a
  parameter giving its answer. Of these \<^verbatim>\<open>registerKernel\<close> is the one whose failure the
  code handles (the \<^verbatim>\<open>try\<close>/\<^verbatim>\<open>catch\<close> of \<^verbatim>\<open>useInterpreterAsKernel\<close>), so its answer is a
  sum; the others answer normally, as their interfaces in the specification (section 6)
  have it. \<open>selectKernel_label\<close> is the localized string \<^verbatim>\<open>DataScience.selectKernel()\<close>.
\<close>

record collaborators =
  areDependenciesInstalled :: "PythonInterpreter \<Rightarrow> bool"
  findMatchingKernelSpec :: "PythonInterpreter \<Rightarrow> IJupyterKernelSpec option"
  registerKernel :: "PythonInterpreter \<Rightarrow> bool option \<Rightarrow> js_error + IJupyterKernelSpec option"
  findMatchingInterpreter_model :: "LiveKernelModel \<Rightarrow> PythonInterpreter option"
  findMatchingInterpreter_spec :: "IJupyterKernelSpec \<Rightarrow> PythonInterpreter option"
  createDefaultKernelSpec :: "string option \<Rightarrow> IJupyterKernelSpec"
  showQuickPick :: "IKernelSpecQuickPickItem list \<Rightarrow> string \<Rightarrow> IKernelSpecQuickPickItem option"
  getKernelSelectionsForRemoteSession :: "IKernelSpecQuickPickItem list"
  getKernelSelectionsForLocalSession :: "connection_type \<Rightarrow> IKernelSpecQuickPickItem list"
  selectKernel_label :: string

type_synonym flow_result = "call list \<times> (js_error + KernelSpecInterpreter)"

definition after_calls :: "call list \<Rightarrow> flow_result \<Rightarrow> flow_result" where
  "after_calls log r = (log @ fst r, snd r)"

text \<open>\<^verbatim>\<open>displayNameOfKernelNotFound && !disableUI\<close>\<close>

definition notify_user :: "string option \<Rightarrow> bool option \<Rightarrow> bool" where
  "notify_user displayNameOfKernelNotFound disableUI =
     (truthy_string displayNameOfKernelNotFound \<and> disableUI \<noteq> Some True)"

text \<open>The second half of \<open>useInterpreterAsKernel\<close>, from the \<^verbatim>\<open>try\<close> on.\<close>

definition useInterpreterAsKernel_register ::
  "collaborators \<Rightarrow> PythonInterpreter \<Rightarrow> string option \<Rightarrow> bool option \<Rightarrow> flow_result" where
  "useInterpreterAsKernel_register c interp displayNameOfKernelNotFound disableUI =
     (case registerKernel c interp disableUI of
        Inl e \<Rightarrow> ([RegisterKernel, SendTelemetryEvent KernelRegisterFailed], Inl e)
      | Inr kernelSpec' \<Rightarrow>
          ([RegisterKernel] @
           (if notify_user displayNameOfKernelNotFound disableUI
            then [ShowInformationMessage
                    (FallBackToRegisterAndUseActiveInterpeterAsKernel (the displayNameOfKernelNotFound))]
            else []) @
           [GetKernelSelectionsForLocalSession],
           Inr \<lparr>kernelSpec = kernelSpec', interpreter = Some interp, kernelModel = None\<rparr>))"

definition useInterpreterAsKernel ::
  "collaborators \<Rightarrow> PythonInterpreter \<Rightarrow> string option \<Rightarrow> bool option \<Rightarrow> flow_result" where
  "useInterpreterAsKernel c interp displayNameOfKernelNotFound disableUI =
     (if areDependenciesInstalled c interp then
        (case findMatchingKernelSpec c interp of
           Some kernelSpec' \<Rightarrow>
             ([AreDependenciesInstalled, FindMatchingKernelSpec, UpdateKernelEnvironment] @
              (if notify_user displayNameOfKernelNotFound disableUI
               then [ShowInformationMessage
                       (FallbackToUseActiveInterpeterAsKernel (the displayNameOfKernelNotFound))]
               else []) @
              [SendTelemetryEvent UseInterpreterAsKernel],
              Inr \<lparr>kernelSpec = Some kernelSpec', interpreter = Some interp, kernelModel = None\<rparr>)
         | None \<Rightarrow>
             after_calls [AreDependenciesInstalled, FindMatchingKernelSpec]
               (useInterpreterAsKernel_register c interp displayNameOfKernelNotFound disableUI))
      else after_calls [AreDependenciesInstalled]
             (useInterpreterAsKernel_register c interp displayNameOfKernelNotFound disableUI))"

definition useInterpreterAndDefaultKernel :: "collaborators \<Rightarrow> PythonInterpreter \<Rightarrow> flow_result" where
  "useInterpreterAndDefaultKernel c interp =
     ([], Inr \<lparr>kernelSpec = Some (createDefaultKernelSpec c (displayName interp)),
              interpreter = Some interp, kernelModel = None\<rparr>)"

definition placeHolder :: "collaborators \<Rightarrow> string option \<Rightarrow> string" where
  "placeHolder c currentKernelDisplayName =
     selectKernel_label c @
     (if truthy_string currentKernelDisplayName
      then '' (current: '' @ the currentKernelDisplayName @ '')'' else [])"

text \<open>
  \<open>selectKernel\<close>. The quick pick answers with an item or with nothing; an item always
  has its \<^verbatim>\<open>selection\<close>, so \<^verbatim>\<open>!selection?.selection\<close> holds exactly when there is no item.
\<close>

definition selectKernel ::
  "collaborators \<Rightarrow> connection_type \<Rightarrow> telemetry \<Rightarrow> IKernelSpecQuickPickItem list \<Rightarrow>
   string option \<Rightarrow> flow_result" where
  "selectKernel c type telemetryEvent suggestions currentKernelDisplayName =
     after_calls
       [SendTelemetryEvent telemetryEvent,
        ShowQuickPick suggestions (placeHolder c currentKernelDisplayName)]
       (case showQuickPick c suggestions (placeHolder c currentKernelDisplayName) of
          None \<Rightarrow> ([], Inr empty_selection)
        | Some item \<Rightarrow>
           (case (interpreter (selection item), type) of
              (Some i, Jupyter) \<Rightarrow>
                after_calls [SendTelemetryEvent SwitchToInterpreterAsKernel]
                  (useInterpreterAsKernel c i None (Some False))
            | (Some i, Raw) \<Rightarrow> useInterpreterAndDefaultKernel c i
            | _ \<Rightarrow>
               (case kernelModel (selection item) of
                  Some km \<Rightarrow>
                    ([SendTelemetryEvent SwitchToExistingKernel, FindMatchingInterpreter],
                     Inr \<lparr>kernelSpec = kernelSpec (selection item),
                          interpreter = findMatchingInterpreter_model c km,
                          kernelModel = Some km\<rparr>)
                | None \<Rightarrow>
                   (case kernelSpec (selection item) of
                      Some ks \<Rightarrow>
                        ([SendTelemetryEvent SwitchToExistingKernel, FindMatchingInterpreter,
                          UpdateKernelEnvironment],
                         Inr \<lparr>kernelSpec = Some ks,
                              interpreter = findMatchingInterpreter_spec c ks,
                              kernelModel = None\<rparr>)
                    | None \<Rightarrow> ([], Inr empty_selection)))))"

definition selectRemoteKernel :: "string set \<Rightarrow> collaborators \<Rightarrow> string option \<Rightarrow> flow_result" where
  "selectRemoteKernel kernelIdsToHide c currentKernelDisplayName =
     after_calls [GetKernelSelectionsForRemoteSession]
       (selectKernel c Jupyter SelectRemoteJupyterKernel
          (filter_suggestions kernelIdsToHide (getKernelSelectionsForRemoteSession c))
          currentKernelDisplayName)"

definition selectLocalKernel ::
  "string set \<Rightarrow> collaborators \<Rightarrow> connection_type \<Rightarrow> string option \<Rightarrow> flow_result" where
  "selectLocalKernel kernelIdsToHide c type currentKernelDisplayName =
     after_calls [GetKernelSelectionsForLocalSession]
       (selectKernel c type SelectLocalJupyterKernel
          (filter_suggestions kernelIdsToHide (getKernelSelectionsForLocalSession c type))
          currentKernelDisplayName)"

section \<open>The contributions of the score, as the specification words them\<close>

text \<open>
  Three predicates following the specification's wording of the matcher (section 4.1) and
  written without the loop's running score, to be compared with the loop body above: a
  non-empty path equal to the interpreter's; the interpreter's major version being
  defined, digits being found in the name by the pattern, and the first one being equal
  to the major version; a non-empty display name equal to the notebook's declared one.
\<close>

definition path_match :: "PythonInterpreter option \<Rightarrow> IJupyterKernelSpec \<Rightarrow> bool" where
  "path_match interp spec =
     (case (spec_path spec, interp) of
        (Some p, Some i) \<Rightarrow> p \<noteq> [] \<and> p = interpreter_path i
      | _ \<Rightarrow> False)"

definition display_name_match :: "INotebookMetadataLive option \<Rightarrow> IJupyterKernelSpec \<Rightarrow> bool" where
  "display_name_match notebookMetadata spec =
     (case (spec_display_name spec, notebookMetadata) of
        (Some d, Some m) \<Rightarrow>
          (case nb_kernelspec m of None \<Rightarrow> False | Some k \<Rightarrow> d \<noteq> [] \<and> d = nb_display_name k)
      | _ \<Rightarrow> False)"

definition version_match :: "PythonInterpreter option \<Rightarrow> IJupyterKernelSpec \<Rightarrow> bool" where
  "version_match interp spec =
     (case (Option.bind interp version, regex_exec (spec_name spec)) of
        (Some v, Some (d # _)) \<Rightarrow> digit_val d = major v
      | _ \<Rightarrow> False)"

text \<open>The version-digit match with one more condition, that the first digit is not 0.\<close>

definition version_match_nonzero :: "PythonInterpreter option \<Rightarrow> IJupyterKernelSpec \<Rightarrow> bool" where
  "version_match_nonzero interp spec =
     (version_match interp spec \<and>
      (case regex_exec (spec_name spec) of Some (d # _) \<Rightarrow> digit_val d \<noteq> 0 | _ \<Rightarrow> False))"

section \<open>Concrete inputs\<close>

text \<open>
  The scenario of the specification (section 8): an interpreter at
  \<^verbatim>\<open>/usr/bin/python3.9\<close> with major version 3, a notebook that declares the display name
  \<^verbatim>\<open>Py3\<close>, candidate A (same path, name \<^verbatim>\<open>python38\<close>), candidate B (display name \<^verbatim>\<open>Py3\<close>);
  then a candidate matching on all three counts, one matching on none, interpreters with
  major versions 0 and 10, running sessions, quick pick items, a kernel connection of a
  restart session, and collaborators answering with fixed values.
\<close>

definition interp39 :: PythonInterpreter where
  "interp39 = \<lparr>interpreter_path = ''/usr/bin/python3.9'', version = Some \<lparr>major = 3\<rparr>, displayName = None\<rparr>"

definition nb_py3 :: INotebookMetadataLive where
  "nb_py3 = \<lparr>nb_kernelspec = Some \<lparr>nb_name = ''py3'', nb_display_name = ''Py3''\<rparr>, nb_id = None\<rparr>"

definition specA :: IJupyterKernelSpec where
  "specA = \<lparr>spec_name = ''python38'', spec_path = Some ''/usr/bin/python3.9'', spec_display_name = None\<rparr>"

definition specB :: IJupyterKernelSpec where
  "specB = \<lparr>spec_name = ''other'', spec_path = None, spec_display_name = Some ''Py3''\<rparr>"

definition specC :: IJupyterKernelSpec where
  "specC = \<lparr>spec_name = ''python3'', spec_path = Some ''/usr/bin/python3.9'', spec_display_name = Some ''Py3''\<rparr>"

definition spec_plain :: IJupyterKernelSpec where
  "spec_plain = \<lparr>spec_name = ''julia'', spec_path = None, spec_display_name = None\<rparr>"

definition interp0 :: PythonInterpreter where
  "interp0 = \<lparr>interpreter_path = ''/opt/py0/bin/python'', version = Some \<lparr>major = 0\<rparr>, displayName = None\<rparr>"

definition interp10 :: PythonInterpreter where
  "interp10 = \<lparr>interpreter_path = ''/opt/py10/bin/python'', version = Some \<lparr>major = 10\<rparr>, displayName = None\<rparr>"

definition spec_python0 :: IJupyterKernelSpec where
  "spec_python0 = \<lparr>spec_name = ''python0'', spec_path = None, spec_display_name = None\<rparr>"

definition spec_python10 :: IJupyterKernelSpec where
  "spec_python10 = \<lparr>spec_name = ''python10'', spec_path = None, spec_display_name = None\<rparr>"

definition specB2 :: IJupyterKernelSpec where
  "specB2 = \<lparr>spec_name = ''another'', spec_path = None, spec_display_name = Some ''Py3''\<rparr>"

definition clock_now :: js_date where
  "clock_now = Some 1600000000000"

definition parse_stub :: "string \<Rightarrow> int option" where
  "parse_stub s = (if s = ''2020-09-01T10:00:00Z'' then Some 1598954400000 else None)"

definition kernel_one :: Kernel_IModel where
  "kernel_one = \<lparr>kernel_id = ''k-1'', kernel_name = ''python3'', last_activity = JUndefined,
                 connections = JUndefined\<rparr>"

definition kernel_two :: Kernel_IModel where
  "kernel_two = \<lparr>kernel_id = ''k-2'', kernel_name = ''python3'',
                 last_activity = JString ''2020-09-01T10:00:00Z'', connections = JNumber 2\<rparr>"

definition kernel_odd :: Kernel_IModel where
  "kernel_odd = \<lparr>kernel_id = ''k-3'', kernel_name = ''python3'', last_activity = JUndefined,
                 connections = JString ''many''\<rparr>"

definition kernel_text :: Kernel_IModel where
  "kernel_text = \<lparr>kernel_id = ''k-4'', kernel_name = ''python3'', last_activity = JUndefined,
                  connections = JString '' 3 clients''\<rparr>"

definition session_one :: Session_IModel where
  "session_one = \<lparr>session_id = ''s-1'', session_kernel = kernel_one\<rparr>"

definition session_two :: Session_IModel where
  "session_two = \<lparr>session_id = ''s-2'', session_kernel = kernel_two\<rparr>"

definition session_odd :: Session_IModel where
  "session_odd = \<lparr>session_id = ''s-3'', session_kernel = kernel_odd\<rparr>"

definition session_text :: Session_IModel where
  "session_text = \<lparr>session_id = ''s-4'', session_kernel = kernel_text\<rparr>"

definition nb_live :: "string \<Rightarrow> INotebookMetadataLive" where
  "nb_live i = \<lparr>nb_kernelspec = Some \<lparr>nb_name = ''py3'', nb_display_name = ''Py3''\<rparr>, nb_id = Some i\<rparr>"

definition live_model :: "string option \<Rightarrow> LiveKernelModel" where
  "live_model i = \<lparr>lk_id = i, lk_name = ''python3'', lk_last_activity = JUndefined,
                   lk_connections = JUndefined, lastActivityTime = clock_now,
                   numberOfConnections = Some 0, lk_session = session_one\<rparr>"

definition item_live :: "string \<Rightarrow> IKernelSpecQuickPickItem" where
  "item_live i = \<lparr>label = i, selection = \<lparr>kernelSpec = None, interpreter = None,
                    kernelModel = Some (live_model (Some i))\<rparr>\<rparr>"

definition item_spec :: IKernelSpecQuickPickItem where
  "item_spec = \<lparr>label = ''spec'', selection = \<lparr>kernelSpec = Some specA, interpreter = None,
                    kernelModel = None\<rparr>\<rparr>"

definition item_interpreter :: IKernelSpecQuickPickItem where
  "item_interpreter = \<lparr>label = ''interpreter'', selection = \<lparr>kernelSpec = None,
                    interpreter = Some interp39, kernelModel = None\<rparr>\<rparr>"

definition restart_kernel :: Kernel_IKernelConnection where
  "restart_kernel = \<lparr>connection_id = ''abc'', clientId = ''client-1''\<rparr>"

definition collab ::
  "bool \<Rightarrow> IJupyterKernelSpec option \<Rightarrow> js_error + IJupyterKernelSpec option \<Rightarrow>
   IKernelSpecQuickPickItem option \<Rightarrow> collaborators" where
  "collab installed found registered picked =
     \<lparr>areDependenciesInstalled = (\<lambda>_. installed),
      findMatchingKernelSpec = (\<lambda>_. found),
      registerKernel = (\<lambda>_ _. registered),
      findMatchingInterpreter_model = (\<lambda>_. None),
      findMatchingInterpreter_spec = (\<lambda>_. None),
      createDefaultKernelSpec = (\<lambda>_. spec_plain),
      showQuickPick = (\<lambda>_ _. picked),
      getKernelSelectionsForRemoteSession = [item_live ''abc'', item_spec, item_live ''def''],
      getKernelSelectionsForLocalSession = (\<lambda>_. [item_interpreter, item_spec]),
      selectKernel_label = ''Select a Kernel''\<rparr>"

definition registration_error :: js_error where
  "registration_error = JsError ''kernel registration failed''"

section \<open>Helper lemmas\<close>

lemmas js_eval =
  isDigit_def digit_val_def isWhiteSpace_def parseInt10_def regex_at_def truthy_string_def

lemmas score_eval =
  spec_score_def score_path_def score_version_def score_display_name_def match_specs_def

lemma regex_at_digits: "regex_at s = Some ds \<Longrightarrow> ds \<noteq> [] \<and> isDigit (hd ds)"
  apply (auto simp: regex_at_def Let_def split: if_splits)
  by (metis hd_in_set set_takeWhileD)

lemma regex_exec_digits: "regex_exec s = Some ds \<Longrightarrow> ds \<noteq> [] \<and> isDigit (hd ds)"
  by (induction s) (auto simp: regex_at_digits split: option.splits)

lemma regex_exec_Nil: "regex_exec [] = None"
  by (simp add: regex_at_def)

lemma parseInt10_digit: "isDigit d \<Longrightarrow> parseInt10 [d] = Some (digit_val d)"
  by (auto simp: parseInt10_def isDigit_def isWhiteSpace_def Let_def)

lemma spec_score_nonneg: "0 \<le> spec_score interp nb spec"
  by (auto simp: spec_score_def score_display_name_def score_version_def score_path_def split: option.splits)

lemma score_path_eq: "score_path interp sp s = s + (if path_match interp sp then 8 else 0)"
  by (auto simp: score_path_def path_match_def split: option.splits)

lemma score_display_name_eq:
  "score_display_name nb sp s = s + (if display_name_match nb sp then 16 else 0)"
  by (auto simp: score_display_name_def display_name_match_def split: option.splits)

lemma score_version_eq:
  "score_version interp sp s = s + (if version_match_nonzero interp sp then 4 else 0)"
proof (cases "regex_exec (spec_name sp)")
  case None
  then show ?thesis
    by (auto simp: score_version_def version_match_nonzero_def version_match_def
        split: option.splits)
next
  case (Some ds)
  then obtain d rest where ds: "ds = d # rest" and d: "isDigit d"
    using regex_exec_digits [OF Some] by (cases ds) auto
  have ne: "spec_name sp \<noteq> []"
    using Some regex_exec_Nil by auto
  show ?thesis
    using Some ne
    by (auto simp: score_version_def version_match_nonzero_def version_match_def ds
        parseInt10_digit [OF d] split: option.splits)
qed

lemma score_loop_result:
  "((\<forall>x \<in> set xs. spec_score interp nb x \<le> bs) \<and> score_loop interp nb xs (bm, bs) = (bm, bs)) \<or>
   (\<exists>i < length xs.
       score_loop interp nb xs (bm, bs) = (xs ! i, spec_score interp nb (xs ! i)) \<and>
       bs < spec_score interp nb (xs ! i) \<and>
       (\<forall>j < i. spec_score interp nb (xs ! j) < spec_score interp nb (xs ! i)) \<and>
       (\<forall>j < length xs. spec_score interp nb (xs ! j) \<le> spec_score interp nb (xs ! i)))"
proof (induction xs arbitrary: bm bs)
  case Nil
  show ?case by simp
next
  case (Cons x xs)
  let ?f = "spec_score interp nb"
  show ?case
  proof (cases "?f x > bs")
    case True
    from Cons.IH [of "?f x" x] show ?thesis
    proof
      assume a: "(\<forall>y \<in> set xs. ?f y \<le> ?f x) \<and> score_loop interp nb xs (x, ?f x) = (x, ?f x)"
      have "\<forall>j < length (x # xs). ?f ((x # xs) ! j) \<le> ?f x"
        using a by (auto simp: nth_Cons split: nat.splits)
      then have "0 < length (x # xs) \<and>
        score_loop interp nb (x # xs) (bm, bs) = ((x # xs) ! 0, ?f ((x # xs) ! 0)) \<and>
        bs < ?f ((x # xs) ! 0) \<and>
        (\<forall>j < 0. ?f ((x # xs) ! j) < ?f ((x # xs) ! 0)) \<and>
        (\<forall>j < length (x # xs). ?f ((x # xs) ! j) \<le> ?f ((x # xs) ! 0))"
        using a True by simp
      then show ?thesis by blast
    next
      assume "\<exists>i < length xs.
       score_loop interp nb xs (x, ?f x) = (xs ! i, ?f (xs ! i)) \<and>
       ?f x < ?f (xs ! i) \<and>
       (\<forall>j < i. ?f (xs ! j) < ?f (xs ! i)) \<and>
       (\<forall>j < length xs. ?f (xs ! j) \<le> ?f (xs ! i))"
      then obtain i where i: "i < length xs"
        and r: "score_loop interp nb xs (x, ?f x) = (xs ! i, ?f (xs ! i))"
        and gt: "?f x < ?f (xs ! i)"
        and before: "\<forall>j < i. ?f (xs ! j) < ?f (xs ! i)"
        and all: "\<forall>j < length xs. ?f (xs ! j) \<le> ?f (xs ! i)" by blast
      have b': "\<forall>j < Suc i. ?f ((x # xs) ! j) < ?f (xs ! i)"
        using gt before by (auto simp: nth_Cons split: nat.splits)
      have a': "\<forall>j < length (x # xs). ?f ((x # xs) ! j) \<le> ?f (xs ! i)"
        using gt all by (auto simp: nth_Cons split: nat.splits)
      have "Suc i < length (x # xs) \<and>
        score_loop interp nb (x # xs) (bm, bs) = ((x # xs) ! Suc i, ?f ((x # xs) ! Suc i)) \<and>
        bs < ?f ((x # xs) ! Suc i) \<and>
        (\<forall>j < Suc i. ?f ((x # xs) ! j) < ?f ((x # xs) ! Suc i)) \<and>
        (\<forall>j < length (x # xs). ?f ((x # xs) ! j) \<le> ?f ((x # xs) ! Suc i))"
        using i r gt True b' a' by simp
      then show ?thesis by blast
    qed
  next
    case False
    from Cons.IH [of bs bm] show ?thesis
    proof
      assume a: "(\<forall>y \<in> set xs. ?f y \<le> bs) \<and> score_loop interp nb xs (bm, bs) = (bm, bs)"
      then show ?thesis using False by simp
    next
      assume "\<exists>i < length xs.
       score_loop interp nb xs (bm, bs) = (xs ! i, ?f (xs ! i)) \<and>
       bs < ?f (xs ! i) \<and>
       (\<forall>j < i. ?f (xs ! j) < ?f (xs ! i)) \<and>
       (\<forall>j < length xs. ?f (xs ! j) \<le> ?f (xs ! i))"
      then obtain i where i: "i < length xs"
        and r: "score_loop interp nb xs (bm, bs) = (xs ! i, ?f (xs ! i))"
        and gt: "bs < ?f (xs ! i)"
        and before: "\<forall>j < i. ?f (xs ! j) < ?f (xs ! i)"
        and all: "\<forall>j < length xs. ?f (xs ! j) \<le> ?f (xs ! i)" by blast
      have b': "\<forall>j < Suc i. ?f ((x # xs) ! j) < ?f (xs ! i)"
        using gt before False by (auto simp: nth_Cons split: nat.splits)
      have a': "\<forall>j < length (x # xs). ?f ((x # xs) ! j) \<le> ?f (xs ! i)"
        using gt all False by (auto simp: nth_Cons split: nat.splits)
      have "Suc i < length (x # xs) \<and>
        score_loop interp nb (x # xs) (bm, bs) = ((x # xs) ! Suc i, ?f ((x # xs) ! Suc i)) \<and>
        bs < ?f ((x # xs) ! Suc i) \<and>
        (\<forall>j < Suc i. ?f ((x # xs) ! j) < ?f ((x # xs) ! Suc i)) \<and>
        (\<forall>j < length (x # xs). ?f ((x # xs) ! j) \<le> ?f ((x # xs) ! Suc i))"
        using i r gt False b' a' by simp
      then show ?thesis by blast
    qed
  qed
qed

lemma match_specs_nonempty:
  assumes "xs \<noteq> []"
  shows "\<exists>i < length xs.
       match_specs interp nb (Some xs) = (xs ! i, spec_score interp nb (xs ! i)) \<and>
       (\<forall>j < i. spec_score interp nb (xs ! j) < spec_score interp nb (xs ! i)) \<and>
       (\<forall>j < length xs. spec_score interp nb (xs ! j) \<le> spec_score interp nb (xs ! i))"
proof -
  from assms obtain x where "x \<in> set xs" by (cases xs) auto
  then have "\<not> (\<forall>x \<in> set xs. spec_score interp nb x \<le> - 1)"
    using spec_score_nonneg [of interp nb x] by force
  with score_loop_result [of xs interp nb "- 1" None] show ?thesis
    unfolding match_specs_def by auto
qed

lemma string_of_nat_digits: "string_of_nat n \<noteq> [] \<and> (\<forall>c \<in> set (string_of_nat n). isDigit c)"
proof (induction n rule: string_of_nat.induct)
  case (1 n)
  show ?case
  proof (cases "n < 10")
    case True
    then show ?thesis
      by (subst string_of_nat.simps, subst (2) string_of_nat.simps) (simp add: isDigit_def)
  next
    case False
    have "n mod 10 < 10" by simp
    then have "isDigit (char_of (48 + n mod 10))"
      by (simp add: isDigit_def)
    with False 1 show ?thesis
      by (subst string_of_nat.simps, subst (2) string_of_nat.simps) auto
  qed
qed

lemma digits_value_append:
  "digits_value acc (xs @ ys) = digits_value (digits_value acc xs) ys"
  by (induction xs arbitrary: acc) auto

lemma digits_value_string_of_nat: "digits_value 0 (string_of_nat n) = int n"
proof (induction n rule: string_of_nat.induct)
  case (1 n)
  show ?case
  proof (cases "n < 10")
    case True
    then show ?thesis
      by (subst string_of_nat.simps) (simp add: digit_val_def)
  next
    case False
    have "n mod 10 < 10" by simp
    then have "digit_val (char_of (48 + n mod 10)) = int (n mod 10)"
      by (simp add: digit_val_def)
    with False 1 show ?thesis
      by (subst string_of_nat.simps) (simp add: digits_value_append zmod_int zdiv_int)
  qed
qed

lemma takeWhile_all: "\<forall>c \<in> set xs. P c \<Longrightarrow> takeWhile P xs = xs"
  by (induction xs) auto

lemma digit_not_space: "isDigit c \<Longrightarrow> \<not> isWhiteSpace c"
  by (auto simp: isDigit_def isWhiteSpace_def)

lemma digit_not_sign: "isDigit c \<Longrightarrow> c \<noteq> CHR ''-'' \<and> c \<noteq> CHR ''+''"
  by (auto simp: isDigit_def)

lemma parseInt10_string_of_nat: "parseInt10 (string_of_nat n) = Some (int n)"
proof -
  obtain d ds where s: "string_of_nat n = d # ds"
    using string_of_nat_digits [of n] by (cases "string_of_nat n") auto
  have all: "\<forall>c \<in> set (d # ds). isDigit c"
    using string_of_nat_digits [of n] s by simp
  then have d: "isDigit d" by simp
  have tw: "takeWhile isDigit (d # ds) = d # ds"
    using takeWhile_all [OF all] .
  have dw: "dropWhile isWhiteSpace (d # ds) = d # ds"
    using digit_not_space [OF d] by simp
  have "digits_value 0 (d # ds) = int n"
    using digits_value_string_of_nat [of n] s by simp
  then show ?thesis
    using digit_not_sign [OF d]
    by (simp add: parseInt10_def s Let_def dw tw
        del: digits_value.simps takeWhile.simps dropWhile.simps)
qed

lemma parseInt10_minus_string_of_nat:
  "parseInt10 (CHR ''-'' # string_of_nat n) = Some (- int n)"
proof -
  have all: "\<forall>c \<in> set (string_of_nat n). isDigit c"
    using string_of_nat_digits [of n] by simp
  have ne: "string_of_nat n \<noteq> []"
    using string_of_nat_digits [of n] by simp
  have sp: "\<not> isWhiteSpace CHR ''-''" by (simp add: isWhiteSpace_def)
  have tw: "takeWhile isDigit (string_of_nat n) = string_of_nat n"
    using takeWhile_all [OF all] .
  show ?thesis
    using ne sp by (simp add: parseInt10_def Let_def tw digits_value_string_of_nat)
qed

lemma parseInt10_toString_number: "parseInt10 (js_toString (JNumber n)) = Some n"
  by (simp add: js_toString_def parseInt10_string_of_nat parseInt10_minus_string_of_nat)

lemma find_live_session_Some:
  assumes "notebookMetadata = Some m" "nb_id m = Some i" "i \<noteq> []" "sessions = Some ss"
    "s \<in> set ss" "kernel_id (session_kernel s) = i"
  shows "\<exists>s'. find_live_session sessions notebookMetadata = Some s' \<and> s' \<in> set ss \<and>
              kernel_id (session_kernel s') = i \<and>
              List.find (\<lambda>s. kernel_id (session_kernel s) = i) ss = Some s'"
proof -
  have "List.find (\<lambda>s. kernel_id (session_kernel s) = i) ss \<noteq> None"
    using assms(5,6) by (auto simp: find_None_iff)
  then obtain s' where f: "List.find (\<lambda>s. kernel_id (session_kernel s) = i) ss = Some s'"
    by auto
  then have "s' \<in> set ss \<and> kernel_id (session_kernel s') = i"
    by (auto simp: find_Some_iff)
  with f show ?thesis
    using assms(1-4) by (simp add: find_live_session_def)
qed

lemma selectKernel_shows:
  "ShowQuickPick items ph \<in> set (fst (selectKernel c ty ev suggestions cur)) \<longleftrightarrow>
   items = suggestions \<and> ph = placeHolder c cur"
  by (auto simp: selectKernel_def after_calls_def useInterpreterAsKernel_def
      useInterpreterAsKernel_register_def useInterpreterAndDefaultKernel_def
      split: option.splits connection_type.splits sum.splits if_splits)

lemmas item_eval =
  filter_suggestions_def item_kernel_id_def item_live_def item_spec_def item_interpreter_def
  live_model_def

lemmas flow_eval =
  useInterpreterAsKernel_def useInterpreterAsKernel_register_def after_calls_def notify_user_def
  truthy_string_def

section \<open>The claims\<close>

text \<open>
  Claim C1. When the notebook's live kernel id is set (a non-empty string, the test the
  code makes) and a running session has a kernel with that id, the result carries the
  kernel of the first such session as a \<^verbatim>\<open>LiveKernelModel\<close> (its fields copied, the session
  attached) and the active interpreter, with no kernel spec: the result is the same for
  every list of kernel specs, so the scoring loop has no part in it.
\<close>

theorem live_session_takes_priority:
  assumes "notebookMetadata = Some m" and "nb_id m = Some i" and "i \<noteq> []"
    and "sessions = Some ss" and "s \<in> set ss" and "kernel_id (session_kernel s) = i"
  shows "\<exists>s'. List.find (\<lambda>s. kernel_id (session_kernel s) = i) ss = Some s' \<and>
     s' \<in> set ss \<and> kernel_id (session_kernel s') = i \<and>
     getKernelForRemoteConnection Date_parse now interp specs sessions notebookMetadata =
       \<lparr>kernelSpec = None, interpreter = interp,
        kernelModel = Some (live_kernel_model Date_parse now s')\<rparr> \<and>
     lk_id (live_kernel_model Date_parse now s') = Some i \<and>
     lk_name (live_kernel_model Date_parse now s') = kernel_name (session_kernel s') \<and>
     lk_last_activity (live_kernel_model Date_parse now s') = last_activity (session_kernel s') \<and>
     lk_connections (live_kernel_model Date_parse now s') = connections (session_kernel s') \<and>
     lk_session (live_kernel_model Date_parse now s') = s' \<and>
     getKernelForRemoteConnection Date_parse now interp specs' sessions notebookMetadata =
       getKernelForRemoteConnection Date_parse now interp specs sessions notebookMetadata"
proof -
  from find_live_session_Some [OF assms] obtain s' where
    f: "find_live_session sessions notebookMetadata = Some s'" and
    m: "s' \<in> set ss" "kernel_id (session_kernel s') = i"
      "List.find (\<lambda>s. kernel_id (session_kernel s) = i) ss = Some s'"
    by blast
  have "getKernelForRemoteConnection Date_parse now interp specs sessions notebookMetadata =
       \<lparr>kernelSpec = None, interpreter = interp,
        kernelModel = Some (live_kernel_model Date_parse now s')\<rparr>" for specs
    by (simp add: getKernelForRemoteConnection_def f)
  then show ?thesis
    using m by (simp add: live_kernel_model_def Let_def)
qed

theorem live_session_takes_priority_witness:
  "nb_id (nb_live ''k-2'') = Some ''k-2'' \<and> ''k-2'' \<noteq> [] \<and>
   session_two \<in> set [session_one, session_two] \<and>
   kernel_id (session_kernel session_two) = ''k-2'' \<and>
   0 < spec_score (Some interp39) (Some (nb_live ''k-2'')) (Some specC) \<and>
   getKernelForRemoteConnection parse_stub clock_now (Some interp39) (Some [Some specC])
       (Some [session_one, session_two]) (Some (nb_live ''k-2'')) =
     \<lparr>kernelSpec = None, interpreter = Some interp39,
      kernelModel = Some (live_kernel_model parse_stub clock_now session_two)\<rparr>"
proof -
  have a: "nb_id (nb_live ''k-2'') = Some ''k-2''" by (simp add: nb_live_def)
  have b: "''k-2'' \<noteq> []" by simp
  have c: "session_two \<in> set [session_one, session_two]" by simp
  have d: "kernel_id (session_kernel session_two) = ''k-2''"
    by (simp add: session_two_def kernel_two_def)
  have e: "0 < spec_score (Some interp39) (Some (nb_live ''k-2'')) (Some specC)"
    by (simp add: score_eval js_eval interp39_def nb_live_def specC_def)
  have f: "List.find (\<lambda>s. kernel_id (session_kernel s) = ''k-2'') [session_one, session_two] =
           Some session_two"
    by (simp add: session_one_def session_two_def kernel_one_def kernel_two_def)
  from live_session_takes_priority [OF refl a b refl c d, of parse_stub clock_now
      "Some interp39" "Some [Some specC]" "Some [Some specC]"]
  show ?thesis using a b c d e f by auto
qed

text \<open>
  Claim C2, as stated: on a non-empty list in which every candidate scores 0 the matching
  step returns no kernel spec and the score stays at -1. It fails: \<^verbatim>\<open>bestScore\<close> starts at
  -1 and the test is \<^verbatim>\<open>score > bestScore\<close>, so the first candidate, with its score 0, is
  taken.
\<close>

theorem no_contribution_counterexample:
  "[Some spec_plain] \<noteq> [] \<and>
   \<not> path_match None spec_plain \<and> \<not> version_match None spec_plain \<and>
   \<not> display_name_match None spec_plain \<and>
   spec_score None None (Some spec_plain) = 0 \<and>
   fst (match_specs None None (Some [Some spec_plain])) = Some spec_plain \<and>
   fst (match_specs None None (Some [Some spec_plain])) \<noteq> None \<and>
   snd (match_specs None None (Some [Some spec_plain])) = 0 \<and>
   snd (match_specs None None (Some [Some spec_plain])) \<noteq> - 1"
  by (simp add: score_eval path_match_def version_match_def display_name_match_def spec_plain_def)

text \<open>
  Claim C2, amended. On a non-empty list in which every candidate scores 0 the matching
  step returns the first candidate, with score 0. The score stays at -1 exactly when the
  list is empty or undefined, and then no kernel spec is returned.
\<close>

theorem no_contribution_first_candidate:
  "(xs \<noteq> [] \<and> (\<forall>x \<in> set xs. spec_score interp nb x = 0) \<longrightarrow>
      match_specs interp nb (Some xs) = (hd xs, 0)) \<and>
   (snd (match_specs interp nb specs) = - 1 \<longleftrightarrow> specs = None \<or> specs = Some []) \<and>
   (specs = None \<or> specs = Some [] \<longrightarrow> fst (match_specs interp nb specs) = None)"
proof (intro conjI impI)
  assume a: "xs \<noteq> [] \<and> (\<forall>x \<in> set xs. spec_score interp nb x = 0)"
  then obtain i where i: "i < length xs"
    and r: "match_specs interp nb (Some xs) = (xs ! i, spec_score interp nb (xs ! i))"
    and b: "\<forall>j < i. spec_score interp nb (xs ! j) < spec_score interp nb (xs ! i)"
    using match_specs_nonempty [of xs interp nb] by blast
  have z: "\<And>j. j < length xs \<Longrightarrow> spec_score interp nb (xs ! j) = 0"
    using a by simp
  have "i = 0"
  proof (rule ccontr)
    assume "i \<noteq> 0"
    then have "0 < i" by simp
    with b have "spec_score interp nb (xs ! 0) < spec_score interp nb (xs ! i)" by blast
    moreover have "0 < length xs" using a by simp
    ultimately show False using z [of 0] z [of i] i by simp
  qed
  moreover have "0 < length xs" using a by simp
  ultimately show "match_specs interp nb (Some xs) = (hd xs, 0)"
    using r z [of 0] a by (simp add: hd_conv_nth)
next
  show "snd (match_specs interp nb specs) = - 1 \<longleftrightarrow> specs = None \<or> specs = Some []"
  proof (cases specs)
    case None
    then show ?thesis by (simp add: match_specs_def)
  next
    case (Some ys)
    show ?thesis
    proof (cases "ys = []")
      case True
      then show ?thesis using Some by (simp add: match_specs_def)
    next
      case False
      then obtain i where "match_specs interp nb (Some ys) = (ys ! i, spec_score interp nb (ys ! i))"
        using match_specs_nonempty [of ys interp nb] by blast
      then show ?thesis
        using Some False spec_score_nonneg [of interp nb "ys ! i"] by auto
    qed
  qed
next
  assume "specs = None \<or> specs = Some []"
  then show "fst (match_specs interp nb specs) = None"
    by (auto simp: match_specs_def)
qed

theorem no_contribution_first_candidate_witness:
  "[Some spec_plain, Some specA] \<noteq> [] \<and>
   list_all (\<lambda>x. spec_score None None x = 0) [Some spec_plain, Some specA] \<and>
   match_specs None None (Some [Some spec_plain, Some specA]) = (Some spec_plain, 0) \<and>
   match_specs None None (Some []) = (None, - 1) \<and>
   match_specs None None None = (None, - 1)"
proof -
  have z: "\<forall>x \<in> set [Some spec_plain, Some specA]. spec_score None None x = 0"
    by (simp add: score_eval spec_plain_def specA_def)
  have e: "(None :: IJupyterKernelSpec option list option) = None \<or>
           (None :: IJupyterKernelSpec option list option) = Some []" by simp
  from no_contribution_first_candidate
    [of "[Some spec_plain, Some specA]" None None "Some []"]
    no_contribution_first_candidate [of "[]" None None None] z e
  show ?thesis by (auto simp: match_specs_def)
qed

text \<open>
  Claim C3, as stated: the score is the sum of 8 for the path match, 4 for the
  version-digit match and 16 for the display-name match. It fails with the version-digit
  match as the specification words it (the first digit found in the name equals the major
  version): the candidate \<^verbatim>\<open>python0\<close> matches the major version 0 in this sense, so the
  sum is 4, and the code gives it the score 0.
\<close>

theorem match_additive_counterexample:
  "version_match (Some interp0) spec_python0 \<and>
   \<not> path_match (Some interp0) spec_python0 \<and>
   \<not> display_name_match None spec_python0 \<and>
   (if path_match (Some interp0) spec_python0 then 8 else 0) +
     (if version_match (Some interp0) spec_python0 then 4 else 0) +
     (if display_name_match None spec_python0 then 16 else 0) = (4 :: int) \<and>
   spec_score (Some interp0) None (Some spec_python0) = 0 \<and>
   spec_score (Some interp0) None (Some spec_python0) \<noteq>
     (if path_match (Some interp0) spec_python0 then 8 else 0) +
     (if version_match (Some interp0) spec_python0 then 4 else 0) +
     (if display_name_match None spec_python0 then 16 else 0)"
  by (simp add: score_eval js_eval path_match_def version_match_def display_name_match_def
      interp0_def spec_python0_def)

text \<open>
  Claim C3, amended. The score of a candidate is the sum of three independent
  contributions: 8 when its path is non-empty and equal to the interpreter's, 4 for the
  version-digit match when the matching first digit is not 0, 16 when its display name is
  non-empty and equal to the one the notebook declares (so 28 when all three hold). From
  a non-empty candidate list the matcher returns a candidate of highest score, and every
  candidate before it in the list has a strictly lower score: on a tie the earliest is
  kept.
\<close>

theorem match_additive_first_highest:
  "spec_score interp nb (Some sp) =
     (if path_match interp sp then 8 else 0) + (if version_match_nonzero interp sp then 4 else 0) +
     (if display_name_match nb sp then 16 else 0) \<and>
   (xs \<noteq> [] \<longrightarrow>
     (\<exists>i < length xs.
        fst (match_specs interp nb (Some xs)) = xs ! i \<and>
        (\<forall>j < length xs. spec_score interp nb (xs ! j) \<le> spec_score interp nb (xs ! i)) \<and>
        (\<forall>j < i. spec_score interp nb (xs ! j) < spec_score interp nb (xs ! i))))"
proof
  show "spec_score interp nb (Some sp) =
     (if path_match interp sp then 8 else 0) + (if version_match_nonzero interp sp then 4 else 0) +
     (if display_name_match nb sp then 16 else 0)"
    by (simp add: spec_score_def score_path_eq score_version_eq score_display_name_eq)
next
  show "xs \<noteq> [] \<longrightarrow>
     (\<exists>i < length xs.
        fst (match_specs interp nb (Some xs)) = xs ! i \<and>
        (\<forall>j < length xs. spec_score interp nb (xs ! j) \<le> spec_score interp nb (xs ! i)) \<and>
        (\<forall>j < i. spec_score interp nb (xs ! j) < spec_score interp nb (xs ! i)))"
  proof
    assume "xs \<noteq> []"
    from match_specs_nonempty [OF this, of interp nb]
    obtain i where "i < length xs"
      "match_specs interp nb (Some xs) = (xs ! i, spec_score interp nb (xs ! i))"
      "\<forall>j < i. spec_score interp nb (xs ! j) < spec_score interp nb (xs ! i)"
      "\<forall>j < length xs. spec_score interp nb (xs ! j) \<le> spec_score interp nb (xs ! i)"
      by blast
    then show "\<exists>i < length xs.
        fst (match_specs interp nb (Some xs)) = xs ! i \<and>
        (\<forall>j < length xs. spec_score interp nb (xs ! j) \<le> spec_score interp nb (xs ! i)) \<and>
        (\<forall>j < i. spec_score interp nb (xs ! j) < spec_score interp nb (xs ! i))"
      by auto
  qed
qed

theorem match_additive_first_highest_witness:
  "path_match (Some interp39) specC \<and> version_match_nonzero (Some interp39) specC \<and>
   display_name_match (Some nb_py3) specC \<and>
   spec_score (Some interp39) (Some nb_py3) (Some specC) = 28 \<and>
   spec_score (Some interp39) (Some nb_py3) (Some specA) = 12 \<and>
   spec_score (Some interp39) (Some nb_py3) (Some specB) = 16 \<and>
   spec_score (Some interp39) (Some nb_py3) (Some specB2) = 16 \<and>
   fst (match_specs (Some interp39) (Some nb_py3) (Some [Some specA, Some specB, Some specB2])) =
     Some specB \<and>
   [Some specA, Some specB, Some specB2] \<noteq> [] \<and>
   (\<exists>i < length [Some specA, Some specB, Some specB2].
      fst (match_specs (Some interp39) (Some nb_py3) (Some [Some specA, Some specB, Some specB2])) =
        [Some specA, Some specB, Some specB2] ! i \<and>
      (\<forall>j < length [Some specA, Some specB, Some specB2].
          spec_score (Some interp39) (Some nb_py3) ([Some specA, Some specB, Some specB2] ! j)
          \<le> spec_score (Some interp39) (Some nb_py3) ([Some specA, Some specB, Some specB2] ! i)) \<and>
      (\<forall>j < i. spec_score (Some interp39) (Some nb_py3) ([Some specA, Some specB, Some specB2] ! j)
          < spec_score (Some interp39) (Some nb_py3) ([Some specA, Some specB, Some specB2] ! i)))"
proof -
  have pm: "path_match (Some interp39) specC"
    by (simp add: path_match_def interp39_def specC_def)
  have vm: "version_match_nonzero (Some interp39) specC"
    by (simp add: version_match_nonzero_def version_match_def interp39_def specC_def js_eval)
  have dm: "display_name_match (Some nb_py3) specC"
    by (simp add: display_name_match_def nb_py3_def specC_def)
  have ne: "[Some specA, Some specB, Some specB2] \<noteq> []" by simp
  have sa: "spec_score (Some interp39) (Some nb_py3) (Some specA) = 12"
    by (simp add: score_eval js_eval interp39_def nb_py3_def specA_def)
  have sb: "spec_score (Some interp39) (Some nb_py3) (Some specB) = 16"
    by (simp add: score_eval js_eval interp39_def nb_py3_def specB_def)
  have sb2: "spec_score (Some interp39) (Some nb_py3) (Some specB2) = 16"
    by (simp add: score_eval js_eval interp39_def nb_py3_def specB2_def)
  have r: "fst (match_specs (Some interp39) (Some nb_py3)
                  (Some [Some specA, Some specB, Some specB2])) = Some specB"
    by (simp add: match_specs_def sa sb sb2)
  from match_additive_first_highest
    [of "Some interp39" "Some nb_py3" specC "[Some specA, Some specB, Some specB2]"]
  show ?thesis using pm vm dm ne sa sb sb2 r by simp
qed

text \<open>
  Claim C4, as stated: the 4 is awarded if and only if the first digit of the digits found
  in the name equals the major version. It fails for the digit 0 with major version 0:
  the name \<^verbatim>\<open>python0\<close> gives the digit 0, equal to the major version, and no 4 is added.
\<close>

theorem version_digit_counterexample:
  "regex_exec (spec_name spec_python0) = Some ''0'' \<and>
   digit_val (hd ''0'') = major \<lparr>major = 0\<rparr> \<and>
   version interp0 = Some \<lparr>major = 0\<rparr> \<and>
   score_version (Some interp0) spec_python0 0 = 0 \<and>
   score_version (Some interp0) spec_python0 0 \<noteq> 0 + 4"
  by (simp add: score_version_def js_eval spec_python0_def interp0_def)

text \<open>
  Claim C4, amended. For a candidate whose name matches the pattern (non-digits followed
  by digits) and an interpreter with a version, the 4 is awarded if and only if the first
  digit of the digits found, read as a one-digit integer, is not 0 and equals the major
  version. So \<^verbatim>\<open>python38\<close> with major version 3 receives it, and a major version 10 is
  compared with the single digit 1 of \<^verbatim>\<open>python10\<close>.
\<close>

theorem version_digit_nonzero_first_digit:
  "interp = Some i \<Longrightarrow> version i = Some v \<Longrightarrow> regex_exec (spec_name sp) = Some ds \<Longrightarrow>
   ds \<noteq> [] \<and> isDigit (hd ds) \<and>
   score_version interp sp score =
     (if digit_val (hd ds) \<noteq> 0 \<and> digit_val (hd ds) = major v then score + 4 else score)"
proof -
  assume i: "interp = Some i" and v: "version i = Some v"
    and m: "regex_exec (spec_name sp) = Some ds"
  from regex_exec_digits [OF m] obtain d rest where ds: "ds = d # rest" and d: "isDigit d"
    by (cases ds) auto
  have ne: "spec_name sp \<noteq> []"
    using m regex_exec_Nil by auto
  show ?thesis
    using i v m ne d by (simp add: score_version_def ds parseInt10_digit [OF d])
qed

theorem version_digit_nonzero_first_digit_witness:
  "version interp39 = Some \<lparr>major = 3\<rparr> \<and> regex_exec (spec_name specA) = Some ''38'' \<and>
   score_version (Some interp39) specA 8 = 8 + 4 \<and>
   version interp10 = Some \<lparr>major = 10\<rparr> \<and> regex_exec (spec_name spec_python10) = Some ''10'' \<and>
   digit_val (hd ''10'') = 1 \<and>
   score_version (Some interp10) spec_python10 0 = 0"
proof -
  have a: "version interp39 = Some \<lparr>major = 3\<rparr>" by (simp add: interp39_def)
  have b: "regex_exec (spec_name specA) = Some ''38''" by (simp add: specA_def js_eval)
  have c: "version interp10 = Some \<lparr>major = 10\<rparr>" by (simp add: interp10_def)
  have d: "regex_exec (spec_name spec_python10) = Some ''10''"
    by (simp add: spec_python10_def js_eval)
  from version_digit_nonzero_first_digit [OF refl a b, of 8]
    version_digit_nonzero_first_digit [OF refl c d, of 0] a b c d
  show ?thesis by (simp add: digit_val_def)
qed

text \<open>
  Claim C5. The list that \<open>selectRemoteKernel\<close> and \<open>selectLocalKernel\<close> show is the
  filtered one. It is a subsequence of the suggestions, in their order; no item in it has
  an identity in the ignore list, so after \<open>addKernelToIgnoreList\<close> none has the id or the
  clientId of the ignored kernel as its identity; and the identity of an item is the id
  of its live kernel model, the empty string when the model or its id is absent.
\<close>

theorem filter_hides_ignored:
  "subseq (filter_suggestions kernelIdsToHide suggestions) suggestions \<and>
   (\<forall>item \<in> set (filter_suggestions kernelIdsToHide suggestions).
       item_kernel_id item \<notin> kernelIdsToHide) \<and>
   (\<forall>item \<in> set (filter_suggestions (addKernelToIgnoreList kern kernelIdsToHide) suggestions).
       item_kernel_id item \<noteq> connection_id kern \<and> item_kernel_id item \<noteq> clientId kern) \<and>
   (\<forall>item. kernelModel (selection item) = None \<longrightarrow> item_kernel_id item = []) \<and>
   (\<forall>item m. kernelModel (selection item) = Some m \<longrightarrow>
       item_kernel_id item = (case lk_id m of None \<Rightarrow> [] | Some i \<Rightarrow> i)) \<and>
   (\<forall>items ph. ShowQuickPick items ph \<in> set (fst (selectRemoteKernel kernelIdsToHide c cur)) \<longrightarrow>
       items = filter_suggestions kernelIdsToHide (getKernelSelectionsForRemoteSession c)) \<and>
   (\<forall>items ph. ShowQuickPick items ph \<in> set (fst (selectLocalKernel kernelIdsToHide c ty cur)) \<longrightarrow>
       items = filter_suggestions kernelIdsToHide (getKernelSelectionsForLocalSession c ty))"
proof (intro conjI)
  show "subseq (filter_suggestions kernelIdsToHide suggestions) suggestions"
    by (simp add: filter_suggestions_def)
  show "\<forall>item \<in> set (filter_suggestions kernelIdsToHide suggestions).
       item_kernel_id item \<notin> kernelIdsToHide"
    by (simp add: filter_suggestions_def)
  show "\<forall>item \<in> set (filter_suggestions (addKernelToIgnoreList kern kernelIdsToHide) suggestions).
       item_kernel_id item \<noteq> connection_id kern \<and> item_kernel_id item \<noteq> clientId kern"
    by (auto simp: filter_suggestions_def addKernelToIgnoreList_def)
  show "\<forall>item. kernelModel (selection item) = None \<longrightarrow> item_kernel_id item = []"
    by (simp add: item_kernel_id_def)
  show "\<forall>item m. kernelModel (selection item) = Some m \<longrightarrow>
       item_kernel_id item = (case lk_id m of None \<Rightarrow> [] | Some i \<Rightarrow> i)"
    by (simp add: item_kernel_id_def)
  show "\<forall>items ph. ShowQuickPick items ph \<in> set (fst (selectRemoteKernel kernelIdsToHide c cur)) \<longrightarrow>
       items = filter_suggestions kernelIdsToHide (getKernelSelectionsForRemoteSession c)"
    by (simp add: selectRemoteKernel_def after_calls_def selectKernel_shows)
  show "\<forall>items ph. ShowQuickPick items ph \<in> set (fst (selectLocalKernel kernelIdsToHide c ty cur)) \<longrightarrow>
       items = filter_suggestions kernelIdsToHide (getKernelSelectionsForLocalSession c ty)"
    by (simp add: selectLocalKernel_def after_calls_def selectKernel_shows)
qed

theorem filter_hides_ignored_witness:
  "filter_suggestions {''abc''} [item_live ''abc'', item_spec, item_live ''def''] =
     [item_spec, item_live ''def''] \<and>
   subseq [item_spec, item_live ''def''] [item_live ''abc'', item_spec, item_live ''def''] \<and>
   item_kernel_id (item_live ''def'') \<notin> {''abc''} \<and>
   item_kernel_id item_spec = [] \<and>
   filter_suggestions {[]} [item_live ''abc'', item_spec, item_live ''def''] =
     [item_live ''abc'', item_live ''def''] \<and>
   filter_suggestions (addKernelToIgnoreList restart_kernel {})
     [item_live ''abc'', item_live ''client-1'', item_live ''def''] = [item_live ''def''] \<and>
   ShowQuickPick [item_spec, item_live ''def''] ''Select a Kernel''
     \<in> set (fst (selectRemoteKernel {''abc''} (collab True None (Inr None) None) None)) \<and>
   ShowQuickPick [item_interpreter, item_spec] ''Select a Kernel''
     \<in> set (fst (selectLocalKernel {''abc''} (collab True None (Inr None) None) Jupyter None))"
proof -
  have f: "filter_suggestions {''abc''} [item_live ''abc'', item_spec, item_live ''def''] =
     [item_spec, item_live ''def'']"
    by (simp add: item_eval)
  have g: "filter_suggestions {[]} [item_live ''abc'', item_spec, item_live ''def''] =
     [item_live ''abc'', item_live ''def'']"
    by (simp add: item_eval)
  have h: "filter_suggestions (addKernelToIgnoreList restart_kernel {})
     [item_live ''abc'', item_live ''client-1'', item_live ''def''] = [item_live ''def'']"
    by (simp add: item_eval addKernelToIgnoreList_def restart_kernel_def)
  have l: "filter_suggestions {''abc''} [item_interpreter, item_spec] = [item_interpreter, item_spec]"
    by (simp add: item_eval)
  have r: "ShowQuickPick [item_spec, item_live ''def''] ''Select a Kernel''
     \<in> set (fst (selectRemoteKernel {''abc''} (collab True None (Inr None) None) None))"
    by (simp add: selectRemoteKernel_def selectKernel_def after_calls_def collab_def f
        placeHolder_def truthy_string_def)
  have q: "ShowQuickPick [item_interpreter, item_spec] ''Select a Kernel''
     \<in> set (fst (selectLocalKernel {''abc''} (collab True None (Inr None) None) Jupyter None))"
    by (simp add: selectLocalKernel_def selectKernel_def after_calls_def collab_def l
        placeHolder_def truthy_string_def)
  have i: "item_kernel_id item_spec = []" "item_kernel_id (item_live ''def'') \<notin> {''abc''}"
    by (simp_all add: item_eval)
  from filter_hides_ignored [of "{''abc''}" "[item_live ''abc'', item_spec, item_live ''def'']"
      restart_kernel "collab True None (Inr None) None" None Jupyter]
  show ?thesis using f g h r q i by simp
qed

text \<open>
  Claim C6, as stated: from every state, adding a kernel and removing it at once gives a
  state with the same filter output. It fails when the kernel's id was in the list
  before: removal deletes the earlier entry too, and a candidate hidden before is shown.
\<close>

theorem ignore_list_add_remove_counterexample:
  "filter_suggestions {''abc''} [item_live ''abc''] = [] \<and>
   filter_suggestions
     (removeKernelFromIgnoreList restart_kernel (addKernelToIgnoreList restart_kernel {''abc''}))
     [item_live ''abc''] = [item_live ''abc''] \<and>
   filter_suggestions
     (removeKernelFromIgnoreList restart_kernel (addKernelToIgnoreList restart_kernel {''abc''}))
     [item_live ''abc''] \<noteq> filter_suggestions {''abc''} [item_live ''abc'']"
  by (simp add: item_eval addKernelToIgnoreList_def removeKernelFromIgnoreList_def
      restart_kernel_def)

text \<open>
  Claim C6, amended. Adding the same kernel twice leaves the same state as adding it
  once; removing a kernel whose id and clientId are both absent leaves the state
  unchanged; adding then removing a kernel whose id and clientId were both absent restores
  the state, hence the filter output; from any state, adding then removing leaves the
  state without the kernel's id and clientId.
\<close>

theorem ignore_list_idempotent:
  "addKernelToIgnoreList kern (addKernelToIgnoreList kern kernelIdsToHide) =
     addKernelToIgnoreList kern kernelIdsToHide \<and>
   (connection_id kern \<notin> kernelIdsToHide \<and> clientId kern \<notin> kernelIdsToHide \<longrightarrow>
      removeKernelFromIgnoreList kern kernelIdsToHide = kernelIdsToHide) \<and>
   (connection_id kern \<notin> kernelIdsToHide \<and> clientId kern \<notin> kernelIdsToHide \<longrightarrow>
      removeKernelFromIgnoreList kern (addKernelToIgnoreList kern kernelIdsToHide) = kernelIdsToHide \<and>
      filter_suggestions
        (removeKernelFromIgnoreList kern (addKernelToIgnoreList kern kernelIdsToHide)) suggestions =
      filter_suggestions kernelIdsToHide suggestions) \<and>
   removeKernelFromIgnoreList kern (addKernelToIgnoreList kern kernelIdsToHide) =
     kernelIdsToHide - {connection_id kern, clientId kern}"
proof -
  have a: "addKernelToIgnoreList kern (addKernelToIgnoreList kern kernelIdsToHide) =
     addKernelToIgnoreList kern kernelIdsToHide"
    by (auto simp: addKernelToIgnoreList_def)
  have b: "removeKernelFromIgnoreList kern (addKernelToIgnoreList kern kernelIdsToHide) =
     kernelIdsToHide - {connection_id kern, clientId kern}"
    by (auto simp: addKernelToIgnoreList_def removeKernelFromIgnoreList_def)
  have c: "removeKernelFromIgnoreList kern kernelIdsToHide = kernelIdsToHide"
    if "connection_id kern \<notin> kernelIdsToHide \<and> clientId kern \<notin> kernelIdsToHide"
    using that by (auto simp: removeKernelFromIgnoreList_def)
  have d: "removeKernelFromIgnoreList kern (addKernelToIgnoreList kern kernelIdsToHide) = kernelIdsToHide"
    if "connection_id kern \<notin> kernelIdsToHide \<and> clientId kern \<notin> kernelIdsToHide"
    using that b by auto
  show ?thesis using a b c d by simp
qed

theorem ignore_list_idempotent_witness:
  "connection_id restart_kernel \<notin> {''def''} \<and> clientId restart_kernel \<notin> {''def''} \<and>
   addKernelToIgnoreList restart_kernel (addKernelToIgnoreList restart_kernel {''def''}) =
     addKernelToIgnoreList restart_kernel {''def''} \<and>
   removeKernelFromIgnoreList restart_kernel {''def''} = {''def''} \<and>
   removeKernelFromIgnoreList restart_kernel (addKernelToIgnoreList restart_kernel {''def''}) =
     {''def''} \<and>
   filter_suggestions
     (removeKernelFromIgnoreList restart_kernel (addKernelToIgnoreList restart_kernel {''def''}))
     [item_live ''abc'', item_live ''def''] =
   filter_suggestions {''def''} [item_live ''abc'', item_live ''def'']"
proof -
  have a: "connection_id restart_kernel \<notin> {''def''} \<and> clientId restart_kernel \<notin> {''def''}"
    by (simp add: restart_kernel_def)
  from ignore_list_idempotent [of restart_kernel "{''def''}" "[item_live ''abc'', item_live ''def'']"] a
  show ?thesis by simp
qed

text \<open>
  Claim C7. In \<open>useInterpreterAsKernel\<close>: when the dependencies are installed and a
  matching kernel spec is found, \<^verbatim>\<open>registerKernel\<close> is not called and the result is that
  kernel spec with the interpreter; when they are not installed, or no matching spec is
  found, \<^verbatim>\<open>registerKernel\<close> is called exactly once; its failure is the failure of the
  call, and its success gives the registered kernel spec with the interpreter.
\<close>

theorem useInterpreterAsKernel_registration:
  "(areDependenciesInstalled c interp \<and> findMatchingKernelSpec c interp = Some ks \<longrightarrow>
      count_list (fst (useInterpreterAsKernel c interp notFound disableUI)) RegisterKernel = 0 \<and>
      snd (useInterpreterAsKernel c interp notFound disableUI) =
        Inr \<lparr>kernelSpec = Some ks, interpreter = Some interp, kernelModel = None\<rparr>) \<and>
   (\<not> areDependenciesInstalled c interp \<or> findMatchingKernelSpec c interp = None \<longrightarrow>
      count_list (fst (useInterpreterAsKernel c interp notFound disableUI)) RegisterKernel = 1) \<and>
   ((\<not> areDependenciesInstalled c interp \<or> findMatchingKernelSpec c interp = None) \<and>
    registerKernel c interp disableUI = Inl e \<longrightarrow>
      snd (useInterpreterAsKernel c interp notFound disableUI) = Inl e) \<and>
   ((\<not> areDependenciesInstalled c interp \<or> findMatchingKernelSpec c interp = None) \<and>
    registerKernel c interp disableUI = Inr registered \<longrightarrow>
      snd (useInterpreterAsKernel c interp notFound disableUI) =
        Inr \<lparr>kernelSpec = registered, interpreter = Some interp, kernelModel = None\<rparr>)"
proof (intro conjI impI)
  assume "areDependenciesInstalled c interp \<and> findMatchingKernelSpec c interp = Some ks"
  then show "count_list (fst (useInterpreterAsKernel c interp notFound disableUI)) RegisterKernel = 0"
    and "snd (useInterpreterAsKernel c interp notFound disableUI) =
        Inr \<lparr>kernelSpec = Some ks, interpreter = Some interp, kernelModel = None\<rparr>"
    by (simp_all add: flow_eval)
next
  assume "\<not> areDependenciesInstalled c interp \<or> findMatchingKernelSpec c interp = None"
  then show "count_list (fst (useInterpreterAsKernel c interp notFound disableUI)) RegisterKernel = 1"
    by (auto simp: flow_eval split: sum.splits)
next
  assume "(\<not> areDependenciesInstalled c interp \<or> findMatchingKernelSpec c interp = None) \<and>
    registerKernel c interp disableUI = Inl e"
  then show "snd (useInterpreterAsKernel c interp notFound disableUI) = Inl e"
    by (auto simp: flow_eval)
next
  assume "(\<not> areDependenciesInstalled c interp \<or> findMatchingKernelSpec c interp = None) \<and>
    registerKernel c interp disableUI = Inr registered"
  then show "snd (useInterpreterAsKernel c interp notFound disableUI) =
        Inr \<lparr>kernelSpec = registered, interpreter = Some interp, kernelModel = None\<rparr>"
    by (auto simp: flow_eval)
qed

theorem useInterpreterAsKernel_registration_witness:
  "areDependenciesInstalled (collab True (Some specA) (Inl registration_error) None) interp39 \<and>
   findMatchingKernelSpec (collab True (Some specA) (Inl registration_error) None) interp39 =
     Some specA \<and>
   useInterpreterAsKernel (collab True (Some specA) (Inl registration_error) None) interp39
       (Some ''Py3'') None =
     ([AreDependenciesInstalled, FindMatchingKernelSpec, UpdateKernelEnvironment,
       ShowInformationMessage (FallbackToUseActiveInterpeterAsKernel ''Py3''),
       SendTelemetryEvent UseInterpreterAsKernel],
      Inr \<lparr>kernelSpec = Some specA, interpreter = Some interp39, kernelModel = None\<rparr>) \<and>
   \<not> areDependenciesInstalled (collab False (Some specA) (Inr (Some specB)) None) interp39 \<and>
   useInterpreterAsKernel (collab False (Some specA) (Inr (Some specB)) None) interp39 None None =
     ([AreDependenciesInstalled, RegisterKernel, GetKernelSelectionsForLocalSession],
      Inr \<lparr>kernelSpec = Some specB, interpreter = Some interp39, kernelModel = None\<rparr>) \<and>
   findMatchingKernelSpec (collab True None (Inl registration_error) None) interp39 = None \<and>
   registerKernel (collab True None (Inl registration_error) None) interp39 None =
     Inl registration_error \<and>
   useInterpreterAsKernel (collab True None (Inl registration_error) None) interp39 None None =
     ([AreDependenciesInstalled, FindMatchingKernelSpec, RegisterKernel,
       SendTelemetryEvent KernelRegisterFailed],
      Inl registration_error)"
proof -
  have a: "areDependenciesInstalled (collab True (Some specA) (Inl registration_error) None) interp39 \<and>
     findMatchingKernelSpec (collab True (Some specA) (Inl registration_error) None) interp39 =
       Some specA"
    by (simp add: collab_def)
  have b: "\<not> areDependenciesInstalled (collab False (Some specA) (Inr (Some specB)) None) interp39"
    by (simp add: collab_def)
  have c: "findMatchingKernelSpec (collab True None (Inl registration_error) None) interp39 = None \<and>
     registerKernel (collab True None (Inl registration_error) None) interp39 None =
       Inl registration_error"
    by (simp add: collab_def)
  have l1: "fst (useInterpreterAsKernel (collab True (Some specA) (Inl registration_error) None)
                   interp39 (Some ''Py3'') None) =
     [AreDependenciesInstalled, FindMatchingKernelSpec, UpdateKernelEnvironment,
       ShowInformationMessage (FallbackToUseActiveInterpeterAsKernel ''Py3''),
       SendTelemetryEvent UseInterpreterAsKernel]"
    by (simp add: flow_eval collab_def)
  have l2: "useInterpreterAsKernel (collab False (Some specA) (Inr (Some specB)) None) interp39
              None None =
     ([AreDependenciesInstalled, RegisterKernel, GetKernelSelectionsForLocalSession],
      Inr \<lparr>kernelSpec = Some specB, interpreter = Some interp39, kernelModel = None\<rparr>)"
    by (simp add: flow_eval collab_def)
  have l3: "fst (useInterpreterAsKernel (collab True None (Inl registration_error) None)
                   interp39 None None) =
     [AreDependenciesInstalled, FindMatchingKernelSpec, RegisterKernel,
       SendTelemetryEvent KernelRegisterFailed]"
    by (simp add: flow_eval collab_def)
  from useInterpreterAsKernel_registration
      [of "collab True (Some specA) (Inl registration_error) None" interp39 specA
        "Some ''Py3''" None registration_error "Some specB"]
    useInterpreterAsKernel_registration
      [of "collab False (Some specA) (Inr (Some specB)) None" interp39 specA
        None None registration_error "Some specB"]
    useInterpreterAsKernel_registration
      [of "collab True None (Inl registration_error) None" interp39 specA
        None None registration_error "Some specB"]
    a b c l1 l2 l3
  show ?thesis by (simp add: prod_eq_iff)
qed

text \<open>
  Claim C8. When the quick pick returns no item, \<open>selectKernel\<close> returns a selection with
  no kernel spec, no interpreter and no kernel model, having only sent its telemetry
  event and shown the quick pick.
\<close>

theorem selectKernel_no_selection:
  "showQuickPick c suggestions (placeHolder c currentKernelDisplayName) = None \<Longrightarrow>
   snd (selectKernel c ty telemetryEvent suggestions currentKernelDisplayName) =
     Inr \<lparr>kernelSpec = None, interpreter = None, kernelModel = None\<rparr> \<and>
   fst (selectKernel c ty telemetryEvent suggestions currentKernelDisplayName) =
     [SendTelemetryEvent telemetryEvent,
      ShowQuickPick suggestions (placeHolder c currentKernelDisplayName)]"
  by (simp add: selectKernel_def after_calls_def empty_selection_def)

theorem selectKernel_no_selection_witness:
  "showQuickPick (collab True (Some specA) (Inr (Some specB)) None)
      [item_interpreter, item_spec]
      (placeHolder (collab True (Some specA) (Inr (Some specB)) None) (Some ''Py3'')) = None \<and>
   placeHolder (collab True (Some specA) (Inr (Some specB)) None) (Some ''Py3'') =
     ''Select a Kernel (current: Py3)'' \<and>
   snd (selectKernel (collab True (Some specA) (Inr (Some specB)) None) Jupyter
          SelectLocalJupyterKernel [item_interpreter, item_spec] (Some ''Py3'')) =
     Inr \<lparr>kernelSpec = None, interpreter = None, kernelModel = None\<rparr>"
proof -
  have a: "showQuickPick (collab True (Some specA) (Inr (Some specB)) None)
      [item_interpreter, item_spec]
      (placeHolder (collab True (Some specA) (Inr (Some specB)) None) (Some ''Py3'')) = None"
    by (simp add: collab_def)
  have p: "placeHolder (collab True (Some specA) (Inr (Some specB)) None) (Some ''Py3'') =
     ''Select a Kernel (current: Py3)''"
    by (simp add: placeHolder_def collab_def truthy_string_def)
  from selectKernel_no_selection [OF a, of Jupyter SelectLocalJupyterKernel] a p
  show ?thesis by simp
qed

text \<open>
  Claim C9, as stated: the connection count defaults to 0 also when the reported value
  cannot be parsed as an integer. It fails: for the reported value \<^verbatim>\<open>"many"\<close> the code
  returns what \<^verbatim>\<open>parseInt\<close> returns, \<^verbatim>\<open>NaN\<close>.
\<close>

theorem live_kernel_connections_counterexample:
  "find_live_session (Some [session_odd]) (Some (nb_live ''k-3'')) = Some session_odd \<and>
   connections (session_kernel session_odd) = JString ''many'' \<and>
   parseInt10 ''many'' = None \<and>
   map_option numberOfConnections
     (kernelModel (getKernelForRemoteConnection parse_stub clock_now None None
        (Some [session_odd]) (Some (nb_live ''k-3'')))) = Some None \<and>
   map_option numberOfConnections
     (kernelModel (getKernelForRemoteConnection parse_stub clock_now None None
        (Some [session_odd]) (Some (nb_live ''k-3'')))) \<noteq> Some (Some 0)"
  by (simp add: getKernelForRemoteConnection_def find_live_session_def live_kernel_model_def
      nb_live_def session_odd_def kernel_odd_def js_truthy_def js_toString_def js_eval)

text \<open>
  Claim C9, amended. For a live session, \<^verbatim>\<open>lastActivityTime\<close> is the clock's time when the
  kernel reports no timestamp and the parsed timestamp when it reports one (a non-empty
  string). \<^verbatim>\<open>numberOfConnections\<close> is 0 when the kernel reports no count, the number 0 or
  the empty string; the count itself when the kernel reports a number that is a safe
  integer; and for a non-empty ASCII string what \<^verbatim>\<open>parseInt\<close> gives: \<^verbatim>\<open>NaN\<close> (not 0) when
  the string cannot be parsed, the parsed integer when that is a safe integer (a parsed 0
  of a string with a minus sign, JavaScript's -0, left aside).
\<close>

theorem live_kernel_activity_and_connections:
  assumes "find_live_session sessions notebookMetadata = Some s"
  shows "\<exists>km. kernelModel (getKernelForRemoteConnection Date_parse now interp specs sessions
                 notebookMetadata) = Some km \<and>
     (last_activity (session_kernel s) = JUndefined \<longrightarrow> lastActivityTime km = now) \<and>
     (\<forall>t. last_activity (session_kernel s) = JString t \<and> t \<noteq> [] \<longrightarrow>
          lastActivityTime km = Date_parse t) \<and>
     (connections (session_kernel s) = JUndefined \<longrightarrow> numberOfConnections km = Some 0) \<and>
     (connections (session_kernel s) = JNumber 0 \<longrightarrow> numberOfConnections km = Some 0) \<and>
     (connections (session_kernel s) = JString [] \<longrightarrow> numberOfConnections km = Some 0) \<and>
     (\<forall>n. connections (session_kernel s) = JNumber n \<and> safe_integer n \<longrightarrow>
          numberOfConnections km = Some n) \<and>
     (\<forall>t. connections (session_kernel s) = JString t \<and> t \<noteq> [] \<and> ascii_string t \<and>
          parseInt10 t = None \<longrightarrow> numberOfConnections km = None) \<and>
     (\<forall>t v. connections (session_kernel s) = JString t \<and> ascii_string t \<and>
          parseInt10 t = Some v \<and> safe_integer v \<and> (v = 0 \<longrightarrow> CHR ''-'' \<notin> set t) \<longrightarrow>
          numberOfConnections km = Some v)"
proof -
  let ?km = "live_kernel_model Date_parse now s"
  have k: "kernelModel (getKernelForRemoteConnection Date_parse now interp specs sessions
                 notebookMetadata) = Some ?km"
    by (simp add: getKernelForRemoteConnection_def assms)
  have n: "numberOfConnections ?km = Some n" if "connections (session_kernel s) = JNumber n" for n
  proof (cases "n = 0")
    case True
    then show ?thesis using that by (simp add: live_kernel_model_def js_truthy_def Let_def)
  next
    case False
    then show ?thesis
      using that parseInt10_toString_number [of n]
      by (simp add: live_kernel_model_def js_truthy_def Let_def)
  qed
  have e: "parseInt10 [] = None"
    by (simp add: parseInt10_def)
  have t: "numberOfConnections ?km = parseInt10 t"
    if "connections (session_kernel s) = JString t" "t \<noteq> []" for t
    using that by (simp add: live_kernel_model_def js_truthy_def js_toString_def Let_def)
  have v: "numberOfConnections ?km = Some v"
    if "connections (session_kernel s) = JString t" "parseInt10 t = Some v" for t v
  proof -
    have "t \<noteq> []" using that(2) e by auto
    then show ?thesis using t [OF that(1)] that(2) by simp
  qed
  have "(last_activity (session_kernel s) = JUndefined \<longrightarrow> lastActivityTime ?km = now) \<and>
     (\<forall>t. last_activity (session_kernel s) = JString t \<and> t \<noteq> [] \<longrightarrow>
          lastActivityTime ?km = Date_parse t) \<and>
     (connections (session_kernel s) = JUndefined \<longrightarrow> numberOfConnections ?km = Some 0) \<and>
     (connections (session_kernel s) = JString [] \<longrightarrow> numberOfConnections ?km = Some 0)"
    by (simp add: live_kernel_model_def js_truthy_def js_toString_def Let_def)
  with k n t v show ?thesis by (intro exI [of _ ?km]) simp
qed

theorem live_kernel_activity_and_connections_witness:
  "find_live_session (Some [session_one, session_two, session_odd, session_text])
     (Some (nb_live ''k-2'')) = Some session_two \<and>
   connections (session_kernel session_two) = JNumber 2 \<and> safe_integer 2 \<and>
   map_option lastActivityTime
     (kernelModel (getKernelForRemoteConnection parse_stub clock_now None None
        (Some [session_one, session_two, session_odd, session_text]) (Some (nb_live ''k-2'')))) =
     Some (Some 1598954400000) \<and>
   map_option numberOfConnections
     (kernelModel (getKernelForRemoteConnection parse_stub clock_now None None
        (Some [session_one, session_two, session_odd, session_text]) (Some (nb_live ''k-2'')))) =
     Some (Some 2) \<and>
   find_live_session (Some [session_one, session_two, session_odd, session_text])
     (Some (nb_live ''k-1'')) = Some session_one \<and>
   map_option lastActivityTime
     (kernelModel (getKernelForRemoteConnection parse_stub clock_now None None
        (Some [session_one, session_two, session_odd, session_text]) (Some (nb_live ''k-1'')))) =
     Some clock_now \<and>
   map_option numberOfConnections
     (kernelModel (getKernelForRemoteConnection parse_stub clock_now None None
        (Some [session_one, session_two, session_odd, session_text]) (Some (nb_live ''k-1'')))) =
     Some (Some 0) \<and>
   find_live_session (Some [session_one, session_two, session_odd, session_text])
     (Some (nb_live ''k-3'')) = Some session_odd \<and>
   connections (session_kernel session_odd) = JString ''many'' \<and> ascii_string ''many'' \<and>
   parseInt10 ''many'' = None \<and>
   map_option numberOfConnections
     (kernelModel (getKernelForRemoteConnection parse_stub clock_now None None
        (Some [session_one, session_two, session_odd, session_text]) (Some (nb_live ''k-3'')))) =
     Some None \<and>
   find_live_session (Some [session_one, session_two, session_odd, session_text])
     (Some (nb_live ''k-4'')) = Some session_text \<and>
   connections (session_kernel session_text) = JString '' 3 clients'' \<and>
   ascii_string '' 3 clients'' \<and> parseInt10 '' 3 clients'' = Some 3 \<and> safe_integer 3 \<and>
   map_option numberOfConnections
     (kernelModel (getKernelForRemoteConnection parse_stub clock_now None None
        (Some [session_one, session_two, session_odd, session_text]) (Some (nb_live ''k-4'')))) =
     Some (Some 3)"
proof -
  let ?ss = "Some [session_one, session_two, session_odd, session_text]"
  have f2: "find_live_session ?ss (Some (nb_live ''k-2'')) = Some session_two"
    by (simp add: find_live_session_def nb_live_def session_one_def session_two_def
        kernel_one_def kernel_two_def)
  have f1: "find_live_session ?ss (Some (nb_live ''k-1'')) = Some session_one"
    by (simp add: find_live_session_def nb_live_def session_one_def kernel_one_def)
  have f3: "find_live_session ?ss (Some (nb_live ''k-3'')) = Some session_odd"
    by (simp add: find_live_session_def nb_live_def session_one_def session_two_def
        session_odd_def kernel_one_def kernel_two_def kernel_odd_def)
  have f4: "find_live_session ?ss (Some (nb_live ''k-4'')) = Some session_text"
    by (simp add: find_live_session_def nb_live_def session_one_def session_two_def
        session_odd_def session_text_def kernel_one_def kernel_two_def kernel_odd_def
        kernel_text_def)
  have k2: "last_activity (session_kernel session_two) = JString ''2020-09-01T10:00:00Z''"
    "connections (session_kernel session_two) = JNumber 2" "safe_integer 2"
    by (simp_all add: session_two_def kernel_two_def safe_integer_def)
  have k1: "last_activity (session_kernel session_one) = JUndefined"
    "connections (session_kernel session_one) = JUndefined"
    by (simp_all add: session_one_def kernel_one_def)
  have k3: "connections (session_kernel session_odd) = JString ''many''"
    "ascii_string ''many''" "parseInt10 ''many'' = None" "''many'' \<noteq> []"
    by (simp_all add: session_odd_def kernel_odd_def ascii_string_def js_eval)
  have k4: "connections (session_kernel session_text) = JString '' 3 clients''"
    "ascii_string '' 3 clients''" "parseInt10 '' 3 clients'' = Some 3" "safe_integer 3"
    by (simp_all add: session_text_def kernel_text_def ascii_string_def safe_integer_def js_eval)
  have p: "parse_stub ''2020-09-01T10:00:00Z'' = Some 1598954400000"
    by (simp add: parse_stub_def)
  from live_kernel_activity_and_connections [OF f2, of parse_stub clock_now None None]
    live_kernel_activity_and_connections [OF f1, of parse_stub clock_now None None]
    live_kernel_activity_and_connections [OF f3, of parse_stub clock_now None None]
    live_kernel_activity_and_connections [OF f4, of parse_stub clock_now None None]
  show ?thesis using f1 f2 f3 f4 k1 k2 k3 k4 p by auto
qed

text \<open>
  Claim C10. A candidate whose digits found in the name begin with 0 never receives the 4
  of the version match, whatever the interpreter, a major version 0 included: the parsed
  digit is tested for truthiness before it is compared.
\<close>

theorem version_digit_zero_never:
  "regex_exec (spec_name sp) = Some ds \<Longrightarrow> hd ds = CHR ''0'' \<Longrightarrow>
   score_version interp sp score = score \<and> \<not> version_match_nonzero interp sp"
proof -
  assume m: "regex_exec (spec_name sp) = Some ds" and z: "hd ds = CHR ''0''"
  from regex_exec_digits [OF m] obtain d rest where ds: "ds = d # rest" and d: "isDigit d"
    by (cases ds) auto
  have d0: "d = CHR ''0''" using z ds by simp
  have p: "parseInt10 [CHR ''0''] = Some 0"
    by (simp add: js_eval)
  have "score_version interp sp score = score"
    using m by (simp add: score_version_def ds d0 p split: option.splits)
  moreover have "\<not> version_match_nonzero interp sp"
    using m by (simp add: version_match_nonzero_def ds d0 digit_val_def)
  ultimately show ?thesis by simp
qed

theorem version_digit_zero_never_witness:
  "regex_exec (spec_name spec_python0) = Some ''0'' \<and> hd ''0'' = CHR ''0'' \<and>
   major (the (version interp0)) = 0 \<and>
   score_version (Some interp0) spec_python0 0 = 0 \<and>
   \<not> version_match_nonzero (Some interp0) spec_python0"
proof -
  have m: "regex_exec (spec_name spec_python0) = Some ''0''"
    by (simp add: spec_python0_def js_eval)
  have h: "hd ''0'' = CHR ''0''" by simp
  from version_digit_zero_never [OF m h, of "Some interp0" 0] m
  show ?thesis by (simp add: interp0_def)
qed

end
